theory Spec2Isabelle
  imports Main
begin

section \<open>Data model of \<open>EditScheduleModal.tsx\<close>\<close>

text \<open>
  The component is a React function component. Its interfaces become records, the
  optional and nullable props become \<open>option\<close>s, and the JavaScript numbers that carry
  identifiers become \<open>int\<close>. Field names that would clash with another record of this
  theory or with a constant of HOL carry a prefix (\<open>slot_\<close>, \<open>prof_\<close>, \<open>act_\<close>).
\<close>

record TimeSlot =
  slot_startTime :: string
  slot_endTime :: string

record Professional =
  prof_id :: int
  nome :: string
  iniciais :: string

record CurrentActivity =
  act_id :: "int option"
  atividade :: string
  act_local :: "string option"
  observacoes :: "string option"

text \<open>
  \<open>ScheduleFormValues\<close> and \<open>WeekDay\<close> are declared in \<open>@shared/schema\<close>. The fields
  of the former are the keys of \<open>defaultValues\<close> (lines 79--87); the latter is kept as
  the type parameter \<open>'w\<close>.
\<close>

record 'w ScheduleFormValues =
  professionalId :: int
  weekday :: 'w
  startTime :: string
  endTime :: string
  activityCode :: string
  location :: string
  notes' :: string

record 'w EditScheduleModalProps =
  isOpen :: bool
  professional :: "Professional option"
  timeSlot :: "TimeSlot option"
  currentActivity :: "CurrentActivity option"
  weekday_prop :: 'w
  isNew :: "bool option"

text \<open>
  The two callbacks \<open>onSave\<close> and \<open>onClose\<close> of the props are the only effects of the
  component outside itself. A call of one of them is a value of type \<open>call\<close>, and
  every handler returns the list of the calls it made, in order.
\<close>

datatype 'w call = OnSave "'w ScheduleFormValues" | OnClose

subsection \<open>JavaScript's \<open>||\<close> and \<open>?.\<close>\<close>

text \<open>
  \<open>a || d\<close> is \<open>d\<close> when \<open>a\<close> is falsy: \<open>undefined\<close>, the empty string, or the
  number 0. \<open>x?.f\<close> is \<open>undefined\<close> when \<open>x\<close> is \<open>null\<close> or \<open>undefined\<close>.
\<close>

definition or_string :: "string option \<Rightarrow> string \<Rightarrow> string" where
  "or_string a d = (case a of None \<Rightarrow> d | Some s \<Rightarrow> if s = [] then d else s)"

definition or_number :: "int option \<Rightarrow> int \<Rightarrow> int" where
  "or_number a d = (case a of None \<Rightarrow> d | Some n \<Rightarrow> if n = 0 then d else n)"

definition disponivel :: string where
  "disponivel = ''disponivel''"

text \<open>
  \<open>currentActivity?.atividade || "disponivel"\<close>, the expression of lines 69, 84, 93
  and 189, under one name for the statements below.
\<close>

definition initialActivity :: "CurrentActivity option \<Rightarrow> string" where
  "initialActivity ca = or_string (map_option atividade ca) disponivel"

subsection \<open>The form state of \<open>useForm\<close>\<close>

datatype field =
  ProfessionalId | Weekday | StartTime | EndTime | ActivityCode | Location | Notes

text \<open>
  \<open>formState.errors\<close> maps a field to its message. The resolver
  \<open>zodResolver(scheduleFormSchema)\<close> is a parameter of the model: it either rejects the
  form values with the errors of the fields, or accepts them and returns the parsed
  values, which \<open>handleSubmit\<close> hands to \<open>onSubmit\<close>.
\<close>

type_synonym errors = "field \<Rightarrow> string option"

type_synonym 'w resolver = "'w ScheduleFormValues \<Rightarrow> errors + 'w ScheduleFormValues"

text \<open>
  The dependencies of the effect, line 106 (\<open>reset\<close> is stable and left out).
\<close>

type_synonym 'w deps =
  "bool \<times> Professional option \<times> TimeSlot option \<times> CurrentActivity option \<times> 'w"

definition deps :: "'w EditScheduleModalProps \<Rightarrow> 'w deps" where
  "deps p = (isOpen p, professional p, timeSlot p, currentActivity p, weekday_prop p)"

record 'w state =
  selectedActivity :: string
  formValues :: "'w ScheduleFormValues"
  formErrors :: errors
  lastDeps :: "'w deps"

section \<open>The component\<close>

text \<open>
  The state of a mounted component is the state of its hooks: \<open>selectedActivity\<close> of
  \<open>useState\<close>, the values and the errors of \<open>useForm\<close>, and the dependencies that
  \<open>useEffect\<close> saw last. Handlers run one at a time, each to its end, and React renders
  again before the next one starts; a handler is therefore a function from the state to
  the state after it, together with the calls it made. The two \<open>console.log\<close> lines
  and the class names are left out.
\<close>

text \<open>The \<open>defaultValues\<close> of \<open>useForm\<close>, lines 79--87.\<close>

definition defaultValues :: "'w EditScheduleModalProps \<Rightarrow> 'w ScheduleFormValues" where
  "defaultValues p =
     \<lparr> professionalId = or_number (map_option prof_id (professional p)) 0,
       weekday = weekday_prop p,
       startTime = or_string (map_option slot_startTime (timeSlot p)) [],
       endTime = or_string (map_option slot_endTime (timeSlot p)) [],
       activityCode = or_string (map_option atividade (currentActivity p)) disponivel,
       location = or_string (Option.bind (currentActivity p) act_local) [],
       notes' = or_string (Option.bind (currentActivity p) observacoes) [] \<rparr>"

text \<open>\<open>reset(values)\<close> of react-hook-form: the values replace the draft, the errors go.\<close>

definition reset :: "'w ScheduleFormValues \<Rightarrow> 'w state \<Rightarrow> 'w state" where
  "reset v s = s\<lparr> formValues := v, formErrors := (\<lambda>f. None) \<rparr>"

text \<open>\<open>setValue("activityCode", value)\<close>: the field changes, nothing is validated.\<close>

definition setValue_activityCode :: "string \<Rightarrow> 'w state \<Rightarrow> 'w state" where
  "setValue_activityCode v s = s\<lparr> formValues := (formValues s)\<lparr> activityCode := v \<rparr> \<rparr>"

definition setSelectedActivity :: "string \<Rightarrow> 'w state \<Rightarrow> 'w state" where
  "setSelectedActivity v s = s\<lparr> selectedActivity := v \<rparr>"

text \<open>The body of the effect, lines 92--105.\<close>

definition effect :: "'w EditScheduleModalProps \<Rightarrow> 'w state \<Rightarrow> 'w state" where
  "effect p s =
     (if isOpen p then
        (let activityValue = or_string (map_option atividade (currentActivity p)) disponivel
         in reset
              \<lparr> professionalId = or_number (map_option prof_id (professional p)) 0,
                weekday = weekday_prop p,
                startTime = or_string (map_option slot_startTime (timeSlot p)) [],
                endTime = or_string (map_option slot_endTime (timeSlot p)) [],
                activityCode = activityValue,
                location = or_string (Option.bind (currentActivity p) act_local) [],
                notes' = or_string (Option.bind (currentActivity p) observacoes) [] \<rparr>
              (setSelectedActivity activityValue s))
      else s)"

text \<open>
  The first render: \<open>useState\<close> and \<open>useForm\<close> take their initial values (lines 69
  and 79--87), then the effect runs, as every effect does after the first render.
\<close>

definition mount :: "'w EditScheduleModalProps \<Rightarrow> 'w state" where
  "mount p =
     effect p
       \<lparr> selectedActivity = or_string (map_option atividade (currentActivity p)) disponivel,
         formValues = defaultValues p,
         formErrors = (\<lambda>f. None),
         lastDeps = deps p \<rparr>"

text \<open>
  A later render with the props \<open>p\<close>. React runs the effect again when a dependency is
  not the one of the render before (\<open>Object.is\<close>). Props are immutable values here, so
  a dependency with another content is another value; \<open>fresh\<close> is true when the parent
  passes a newly built object of equal content, which React takes for a change as well.
\<close>

definition rerender :: "'w EditScheduleModalProps \<Rightarrow> bool \<Rightarrow> 'w state \<Rightarrow> 'w state" where
  "rerender p fresh s =
     (if fresh \<or> lastDeps s \<noteq> deps p then effect p (s\<lparr> lastDeps := deps p \<rparr>)
      else s\<lparr> lastDeps := deps p \<rparr>)"

text \<open>\<open>handleActivityChange\<close>, lines 108--112 (the \<open>console.log\<close> is left out).\<close>

definition handleActivityChange :: "string \<Rightarrow> 'w state \<Rightarrow> 'w state" where
  "handleActivityChange v s = setValue_activityCode v (setSelectedActivity v s)"

text \<open>\<open>onSubmit\<close>, lines 114--123: the payload and the two calls, in order.\<close>

definition onSubmit :: "'w state \<Rightarrow> 'w ScheduleFormValues \<Rightarrow> 'w call list" where
  "onSubmit s data =
     (let submittedData = data\<lparr> activityCode := selectedActivity s \<rparr>
      in [OnSave submittedData, OnClose])"

text \<open>
  \<open>handleSubmit(onSubmit)\<close>, line 137: the resolver validates the draft; when it
  accepts, the errors are cleared and \<open>onSubmit\<close> receives the parsed values; when it
  rejects, the errors are stored and \<open>onSubmit\<close> is not called.
\<close>

definition handleSubmit :: "'w resolver \<Rightarrow> 'w state \<Rightarrow> 'w state \<times> 'w call list" where
  "handleSubmit resolver s =
     (case resolver (formValues s) of
        Inl errs \<Rightarrow> (s\<lparr> formErrors := errs \<rparr>, [])
      | Inr data \<Rightarrow> (s\<lparr> formErrors := (\<lambda>f. None) \<rparr>, onSubmit s data))"

text \<open>
  What the user and the parent can do to a mounted component: the parent renders it
  again; the user types into one of the four registered inputs (lines 159, 173, 216,
  225), picks an item of the select (line 187), presses Salvar (line 235), or presses
  Cancelar or dismisses the dialog (lines 126, 232).
\<close>

datatype 'w event =
  Rerender "'w EditScheduleModalProps" bool
| ChangeStartTime string
| ChangeEndTime string
| ChangeLocation string
| ChangeNotes string
| SelectActivity string
| Submit
| Cancel

fun step :: "'w resolver \<Rightarrow> 'w event \<Rightarrow> 'w state \<Rightarrow> 'w state \<times> 'w call list" where
  "step r (Rerender p fresh) s = (rerender p fresh s, [])"
| "step r (ChangeStartTime v) s = (s\<lparr> formValues := (formValues s)\<lparr> startTime := v \<rparr> \<rparr>, [])"
| "step r (ChangeEndTime v) s = (s\<lparr> formValues := (formValues s)\<lparr> endTime := v \<rparr> \<rparr>, [])"
| "step r (ChangeLocation v) s = (s\<lparr> formValues := (formValues s)\<lparr> location := v \<rparr> \<rparr>, [])"
| "step r (ChangeNotes v) s = (s\<lparr> formValues := (formValues s)\<lparr> notes' := v \<rparr> \<rparr>, [])"
| "step r (SelectActivity v) s = (handleActivityChange v s, [])"
| "step r Submit s = handleSubmit r s"
| "step r Cancel s = (s, [OnClose])"

text \<open>A sequence of events, from a state: the state reached and all the calls made.\<close>

fun run :: "'w resolver \<Rightarrow> 'w event list \<Rightarrow> 'w state \<Rightarrow> 'w state \<times> 'w call list" where
  "run r [] s = (s, [])"
| "run r (e # es) s =
     (case step r e s of (s1, cs1) \<Rightarrow>
        (case run r es s1 of (s2, cs2) \<Rightarrow> (s2, cs1 @ cs2)))"

text \<open>The life of one component instance: mounted with \<open>p\<close>, then the events.\<close>

definition session ::
  "'w resolver \<Rightarrow> 'w EditScheduleModalProps \<Rightarrow> 'w event list \<Rightarrow> 'w state \<times> 'w call list" where
  "session r p es = run r es (mount p)"

subsection \<open>What is rendered\<close>

text \<open>
  The title, line 133; \<open>isNew\<close> defaults to \<open>false\<close> (line 67). Strings are byte
  lists, so the letter a-acute of the second title is its two bytes in UTF-8.
\<close>

definition DialogTitle :: "'w EditScheduleModalProps \<Rightarrow> string" where
  "DialogTitle p =
     (if (case isNew p of None \<Rightarrow> False | Some b \<Rightarrow> b) then ''Nova Atividade''
      else ''Editar Hor'' @ [CHR 0xC3, CHR 0xA1] @ ''rio'')"

text \<open>
  The three messages under the inputs, lines 162--164, 176--178 and 207--209: the
  component shows the error of \<open>startTime\<close>, \<open>endTime\<close> and \<open>activityCode\<close>, and of no
  other field.
\<close>

definition error_text :: "field \<Rightarrow> 'w state \<Rightarrow> string option" where
  "error_text f s =
     (if f = StartTime \<or> f = EndTime \<or> f = ActivityCode then formErrors s f else None)"

text \<open>
  The data of \<open>useQuery\<close> is whatever the server sent, or \<open>undefined\<close> while the
  lookup is pending or after it failed with nothing cached. It is untyped in the source
  (\<open>activity: any\<close>), so it is a JavaScript value as \<open>JSON.parse\<close> builds them; an
  object lists its properties in the order of the text, the last of two equal keys
  being the one that counts.
\<close>

datatype json =
  JNull | JBool bool | JNum int | JStr string | JArr "json list" | JObj "(string \<times> json) list"

datatype render_error = TypeError

text \<open>
  Reading one of the properties \<open>id\<close>, \<open>code\<close>, \<open>name\<close>: \<open>null\<close> throws, an object
  gives the property or \<open>undefined\<close>, and a boolean, a number, a string or an array has
  none of the three.
\<close>

fun get_prop :: "json \<Rightarrow> string \<Rightarrow> render_error + json option" where
  "get_prop JNull k = Inl TypeError"
| "get_prop (JObj kvs) k = Inr (map_of (rev kvs) k)"
| "get_prop (JBool b) k = Inr None"
| "get_prop (JNum n) k = Inr None"
| "get_prop (JStr s) k = Inr None"
| "get_prop (JArr xs) k = Inr None"

text \<open>A \<open>SelectItem\<close> element: its \<open>key\<close>, its \<open>value\<close> and its child.\<close>

record SelectItem =
  item_key :: "json option"
  item_value :: "json option"
  item_children :: "json option"

text \<open>Line 196; the letter i-acute of the label is its two bytes in UTF-8.\<close>

definition available_item :: SelectItem where
  "available_item =
     \<lparr> item_key = None, item_value = Some (JStr ''disponivel''),
       item_children = Some (JStr (''Dispon'' @ [CHR 0xC3, CHR 0xAD] @ ''vel'')) \<rparr>"

text \<open>The callback of \<open>map\<close>, lines 199--203.\<close>

definition activity_item :: "json \<Rightarrow> render_error + SelectItem" where
  "activity_item activity =
     (case get_prop activity ''id'' of
        Inl e \<Rightarrow> Inl e
      | Inr k \<Rightarrow>
          (case get_prop activity ''code'' of
             Inl e \<Rightarrow> Inl e
           | Inr v \<Rightarrow>
               (case get_prop activity ''name'' of
                  Inl e \<Rightarrow> Inl e
                | Inr c \<Rightarrow> Inr \<lparr> item_key = k, item_value = v, item_children = c \<rparr>)))"

text \<open>\<open>activityTypes.map(...)\<close>: the first element that throws ends the rendering.\<close>

fun map_items :: "json list \<Rightarrow> render_error + SelectItem list" where
  "map_items [] = Inr []"
| "map_items (a # as) =
     (case activity_item a of
        Inl e \<Rightarrow> Inl e
      | Inr i \<Rightarrow> (case map_items as of Inl e \<Rightarrow> Inl e | Inr items \<Rightarrow> Inr (i # items)))"

definition isArray :: "json \<Rightarrow> bool" where
  "isArray v = (case v of JArr xs \<Rightarrow> True | _ \<Rightarrow> False)"

text \<open>
  The items of the select, lines 194--204, from the data of the query: the default
  \<open>[]\<close> of line 72 stands in for \<open>undefined\<close>, and \<open>Array.isArray\<close> guards the map.
\<close>

definition SelectContent :: "json option \<Rightarrow> render_error + SelectItem list" where
  "SelectContent data =
     (let activityTypes = (case data of None \<Rightarrow> JArr [] | Some v \<Rightarrow> v)
      in if isArray activityTypes then
           (case activityTypes of
              JArr xs \<Rightarrow>
                (case map_items xs of
                   Inl e \<Rightarrow> Inl e
                 | Inr items \<Rightarrow> Inr (available_item # items))
            | _ \<Rightarrow> Inr [available_item])
         else Inr [available_item])"

text \<open>
  A well-formed option of the lookup: the three properties that lines 200 and 201
  read, an integer \<open>id\<close>, a \<open>code\<close> and a \<open>name\<close>, and the value the server sends
  for it.
\<close>

record ActivityOption =
  opt_id :: int
  opt_code :: string
  opt_name :: string

definition option_json :: "ActivityOption \<Rightarrow> json" where
  "option_json opt =
     JObj [(''id'', JNum (opt_id opt)), (''code'', JStr (opt_code opt)),
           (''name'', JStr (opt_name opt))]"

definition option_item :: "ActivityOption \<Rightarrow> SelectItem" where
  "option_item opt =
     \<lparr> item_key = Some (JNum (opt_id opt)), item_value = Some (JStr (opt_code opt)),
       item_children = Some (JStr (opt_name opt)) \<rparr>"

subsection \<open>The validation schema\<close>

text \<open>
  \<open>scheduleFormSchema\<close> is imported from \<open>@shared/schema\<close> (line 24), a file that is
  not among the sources. The component takes it through the resolver, which is a
  parameter of \<open>handleSubmit\<close> above. The definitions of this subsection give the
  rules that the spec states for it: \<open>startTime\<close> and \<open>endTime\<close> required, each a
  valid time-of-day value; \<open>activityCode\<close> required, a non-empty string;
  \<open>professionalId\<close> required, a positive integer; \<open>weekday\<close> one of the weekday
  enumerants; \<open>location\<close> and \<open>notes\<close> optional, with no constraint.
\<close>

text \<open>
  Modelled from the spec: the digits of a time-of-day value (the schema is missing from
  the sources).
\<close>

definition is_digit :: "char \<Rightarrow> bool" where
  "is_digit c = (c \<in> set ''0123456789'')"

text \<open>
  Modelled from the spec: the "valid time-of-day value" of the missing schema, taken
  as \<open>HH:MM\<close> from 00:00 to 23:59, which is what the spec's examples show (14:15,
  15:45, 16:00) and what a time input with a step of 60 seconds holds.
\<close>

fun is_time_of_day :: "string \<Rightarrow> bool" where
  "is_time_of_day [h1, h2, c, m1, m2] =
     (c = CHR '':'' \<and> is_digit h2 \<and> is_digit m2 \<and> m1 \<in> set ''012345'' \<and>
      (h1 \<in> set ''01'' \<or> (h1 = CHR ''2'' \<and> h2 \<in> set ''0123'')))"
| "is_time_of_day s = False"

text \<open>
  Modelled from the spec: the error of a time field of the missing schema. An empty
  time is a missing required field and gets the message \<open>required\<close>, the word of the
  spec's third scenario; a time that is not a time of day gets the message \<open>invalid\<close>.
\<close>

definition time_error :: "string \<Rightarrow> string option" where
  "time_error t =
     (if t = [] then Some ''required''
      else if is_time_of_day t then None else Some ''invalid'')"

text \<open>
  Modelled from the spec: the errors of the missing schema, field by field. Every value
  of the type \<open>'w\<close> is a weekday, so \<open>weekday\<close> has no error.
\<close>

definition schema_errors :: "'w ScheduleFormValues \<Rightarrow> errors" where
  "schema_errors v f =
     (case f of
        ProfessionalId \<Rightarrow> if 0 < professionalId v then None else Some ''invalid''
      | StartTime \<Rightarrow> time_error (startTime v)
      | EndTime \<Rightarrow> time_error (endTime v)
      | ActivityCode \<Rightarrow> if activityCode v = [] then Some ''required'' else None
      | Weekday \<Rightarrow> None
      | Location \<Rightarrow> None
      | Notes \<Rightarrow> None)"

text \<open>
  Modelled from the spec: the resolver \<open>zodResolver(scheduleFormSchema)\<close> with the
  missing schema. A draft that meets every rule is accepted and returned as it is; any
  other draft is rejected with the errors of its fields.
\<close>

definition scheduleFormSchema :: "'w resolver" where
  "scheduleFormSchema v =
     (if 0 < professionalId v \<and> time_error (startTime v) = None \<and>
         time_error (endTime v) = None \<and> activityCode v \<noteq> []
      then Inr v else Inl (schema_errors v))"

subsection \<open>Notions for the statements\<close>

text \<open>An event, and props, with \<open>isNew\<close> taken out.\<close>

definition forget_isNew :: "'w EditScheduleModalProps \<Rightarrow> 'w EditScheduleModalProps" where
  "forget_isNew p = p\<lparr> isNew := None \<rparr>"

fun forget_isNew_event :: "'w event \<Rightarrow> 'w event" where
  "forget_isNew_event (Rerender q fresh) = Rerender (forget_isNew q) fresh"
| "forget_isNew_event (ChangeStartTime v) = ChangeStartTime v"
| "forget_isNew_event (ChangeEndTime v) = ChangeEndTime v"
| "forget_isNew_event (ChangeLocation v) = ChangeLocation v"
| "forget_isNew_event (ChangeNotes v) = ChangeNotes v"
| "forget_isNew_event (SelectActivity v) = SelectActivity v"
| "forget_isNew_event Submit = Submit"
| "forget_isNew_event Cancel = Cancel"

text \<open>
  The writes to \<open>selectedActivity\<close> along a sequence of events, in order, from the
  dependencies \<open>d\<close> that the effect saw last: a render writes the activity of its
  \<open>currentActivity\<close> when its effect runs with the dialog open (line 94), a pick writes
  the picked value (line 109), and no other event writes.
\<close>

fun selection_writes :: "'w deps \<Rightarrow> 'w event list \<Rightarrow> string list" where
  "selection_writes d [] = []"
| "selection_writes d (Rerender q fresh # es) =
     (if isOpen q \<and> (fresh \<or> d \<noteq> deps q)
      then initialActivity (currentActivity q) # selection_writes (deps q) es
      else selection_writes (deps q) es)"
| "selection_writes d (SelectActivity v # es) = v # selection_writes d es"
| "selection_writes d (ChangeStartTime v # es) = selection_writes d es"
| "selection_writes d (ChangeEndTime v # es) = selection_writes d es"
| "selection_writes d (ChangeLocation v # es) = selection_writes d es"
| "selection_writes d (ChangeNotes v # es) = selection_writes d es"
| "selection_writes d (Submit # es) = selection_writes d es"
| "selection_writes d (Cancel # es) = selection_writes d es"

text \<open>
  A code is among the live options when the select, rendered from the data that the
  lookup holds, has an item with this value: the item of \<open>disponivel\<close> or the item of
  a fetched option.
\<close>

definition in_live_options :: "json option \<Rightarrow> string \<Rightarrow> bool" where
  "in_live_options data c =
     (case SelectContent data of
        Inl e \<Rightarrow> False
      | Inr items \<Rightarrow> Some (JStr c) \<in> set (map item_value items))"

text \<open>The payloads of the \<open>onSave\<close> calls among some calls.\<close>

fun saved :: "'w call list \<Rightarrow> 'w ScheduleFormValues list" where
  "saved [] = []"
| "saved (OnSave d # cs) = d # saved cs"
| "saved (OnClose # cs) = saved cs"

text \<open>An event that does not bring a professional: every render has \<open>null\<close> for it.\<close>

fun no_professional :: "'w event \<Rightarrow> bool" where
  "no_professional (Rerender q fresh) = (professional q = None)"
| "no_professional (ChangeStartTime v) = True"
| "no_professional (ChangeEndTime v) = True"
| "no_professional (ChangeLocation v) = True"
| "no_professional (ChangeNotes v) = True"
| "no_professional (SelectActivity v) = True"
| "no_professional Submit = True"
| "no_professional Cancel = True"

subsection \<open>The props of the spec's scenarios\<close>

text \<open>
  The first scenario of the spec: the time slot from 14:15 to 15:45 and no current
  activity. The scenario does not name the professional or the weekday; they are a
  professional with a positive id and a Monday.
\<close>

definition scenario_props :: "string EditScheduleModalProps" where
  "scenario_props =
     \<lparr> isOpen = True,
       professional = Some \<lparr> prof_id = 7, nome = ''Ana Lima'', iniciais = ''AL'' \<rparr>,
       timeSlot = Some \<lparr> slot_startTime = ''14:15'', slot_endTime = ''15:45'' \<rparr>,
       currentActivity = None,
       weekday_prop = ''segunda'',
       isNew = None \<rparr>"

text \<open>The second scenario: the current activity is \<open>consulta\<close>, in Room 2.\<close>

definition consulta_props :: "string EditScheduleModalProps" where
  "consulta_props =
     scenario_props
       \<lparr> currentActivity :=
           Some \<lparr> act_id = Some 3, atividade = ''consulta'', act_local = Some ''Room 2'',
                  observacoes = None \<rparr> \<rparr>"

text \<open>The dialog with neither a professional nor a time slot.\<close>

definition empty_props :: "string EditScheduleModalProps" where
  "empty_props =
     \<lparr> isOpen = True, professional = None, timeSlot = None, currentActivity = None,
       weekday_prop = ''segunda'', isNew = None \<rparr>"

section \<open>Facts about mounting, the effect and runs\<close>

lemma mount_state:
  "mount p =
     \<lparr> selectedActivity = initialActivity (currentActivity p), formValues = defaultValues p,
       formErrors = (\<lambda>f. None), lastDeps = deps p \<rparr>"
  by (simp add: mount_def effect_def reset_def setSelectedActivity_def defaultValues_def
      initialActivity_def Let_def)

lemma effect_open:
  "isOpen p \<Longrightarrow> effect p s =
     s\<lparr> selectedActivity := initialActivity (currentActivity p),
        formValues := defaultValues p, formErrors := (\<lambda>f. None) \<rparr>"
  by (simp add: effect_def reset_def setSelectedActivity_def defaultValues_def
      initialActivity_def Let_def)

lemma effect_closed: "\<not> isOpen p \<Longrightarrow> effect p s = s"
  by (simp add: effect_def)

lemma run_Cons:
  "run r (e # es) s =
     (fst (run r es (fst (step r e s))), snd (step r e s) @ snd (run r es (fst (step r e s))))"
  by (simp split: prod.splits)

lemma consulta_values:
  "formValues (mount consulta_props) =
     \<lparr> professionalId = 7, weekday = ''segunda'', startTime = ''14:15'', endTime = ''15:45'',
       activityCode = ''consulta'', location = ''Room 2'', notes' = [] \<rparr>"
  by (simp add: mount_state consulta_props_def scenario_props_def defaultValues_def
      or_string_def or_number_def disponivel_def)

lemma consulta_selected: "selectedActivity (mount consulta_props) = ''consulta''"
  by (simp add: mount_state consulta_props_def scenario_props_def initialActivity_def
      or_string_def disponivel_def)

lemma scenario_values:
  "formValues (mount scenario_props) =
     \<lparr> professionalId = 7, weekday = ''segunda'', startTime = ''14:15'', endTime = ''15:45'',
       activityCode = ''disponivel'', location = [], notes' = [] \<rparr>"
  by (simp add: mount_state scenario_props_def defaultValues_def or_string_def or_number_def
      disponivel_def)

lemma empty_values:
  "formValues (mount empty_props) =
     \<lparr> professionalId = 0, weekday = ''segunda'', startTime = [], endTime = [],
       activityCode = ''disponivel'', location = [], notes' = [] \<rparr>"
  by (simp add: mount_state empty_props_def defaultValues_def or_string_def or_number_def
      disponivel_def)

lemma effect_selected:
  "selectedActivity (effect p s) =
     (if isOpen p then initialActivity (currentActivity p) else selectedActivity s)"
  by (simp add: effect_open effect_closed)

lemma step_agree:
  "selectedActivity s = activityCode (formValues s) \<Longrightarrow>
   selectedActivity (fst (step r e s)) = activityCode (formValues (fst (step r e s)))"
  by (cases e)
     (auto simp: rerender_def effect_def reset_def setSelectedActivity_def Let_def
       handleActivityChange_def setValue_activityCode_def handleSubmit_def split: sum.splits)

lemma run_agree:
  "selectedActivity s = activityCode (formValues s) \<Longrightarrow>
   selectedActivity (fst (run r es s)) = activityCode (formValues (fst (run r es s)))"
proof (induction es arbitrary: s)
  case Nil
  then show ?case by simp
next
  case (Cons e es)
  from Cons.prems
  have "selectedActivity (fst (step r e s)) = activityCode (formValues (fst (step r e s)))"
    by (rule step_agree)
  from Cons.IH [OF this] show ?case
    by (simp only: run_Cons fst_conv)
qed

lemma step_saved:
  "d \<in> set (saved (snd (step r e s))) \<Longrightarrow> activityCode d = selectedActivity s"
  by (cases e) (auto simp: handleSubmit_def onSubmit_def Let_def split: sum.splits)

lemma effect_lastDeps: "lastDeps (effect p s) = lastDeps s"
  by (simp add: effect_def reset_def setSelectedActivity_def Let_def)

lemma run_selection:
  "selectedActivity (fst (run r es s)) =
     last (selectedActivity s # selection_writes (lastDeps s) es)"
proof (induction es arbitrary: s)
  case Nil
  then show ?case by simp
next
  case (Cons e es)
  have "last (selectedActivity s # selection_writes (lastDeps s) (e # es)) =
        last (selectedActivity (fst (step r e s)) #
              selection_writes (lastDeps (fst (step r e s))) es)"
    by (cases e)
       (simp_all add: rerender_def effect_selected effect_lastDeps handleActivityChange_def
          setValue_activityCode_def setSelectedActivity_def handleSubmit_def
          split: sum.splits)
  then show ?case
    by (simp only: run_Cons fst_conv Cons.IH)
qed

lemma map_items_options: "map_items (map option_json opts) = Inr (map option_item opts)"
  by (induction opts) (simp_all add: activity_item_def option_json_def option_item_def)

lemma deps_forget: "deps (forget_isNew p) = deps p"
  by (simp add: deps_def forget_isNew_def)

lemma effect_forget: "effect (forget_isNew p) s = effect p s"
  by (simp add: effect_def forget_isNew_def)

lemma mount_forget: "mount (forget_isNew p) = mount p"
  by (simp add: mount_def effect_forget deps_forget)
     (simp add: forget_isNew_def defaultValues_def)

lemma step_forget: "step r (forget_isNew_event e) s = step r e s"
  by (cases e) (simp_all add: rerender_def deps_forget effect_forget)

lemma run_forget: "run r (map forget_isNew_event es) s = run r es s"
  by (induction es arbitrary: s) (simp_all add: step_forget)

lemma session_forget:
  "session r (forget_isNew p) (map forget_isNew_event es) = session r p es"
  by (simp add: session_def mount_forget run_forget)

lemma step_no_professional:
  "no_professional e \<Longrightarrow> professionalId (formValues s) = 0 \<Longrightarrow>
   professionalId (formValues (fst (step r e s))) = 0"
  by (cases e)
     (auto simp: rerender_def effect_def reset_def setSelectedActivity_def Let_def or_number_def
        handleActivityChange_def setValue_activityCode_def handleSubmit_def split: sum.splits)

lemma run_no_professional:
  "list_all no_professional es \<Longrightarrow> professionalId (formValues s) = 0 \<Longrightarrow>
   professionalId (formValues (fst (run r es s))) = 0"
proof (induction es arbitrary: s)
  case Nil
  then show ?case by simp
next
  case (Cons e es)
  then have "professionalId (formValues (fst (step r e s))) = 0"
    by (simp add: step_no_professional)
  moreover from Cons.prems have "list_all no_professional es"
    by simp
  ultimately show ?case
    using Cons.IH by (simp only: run_Cons fst_conv)
qed

section \<open>Submission\<close>

text \<open>
  Claim C1. When the validation accepts the draft, pressing Salvar calls \<open>onSave\<close>
  once, with the validated values in which \<open>activityCode\<close> is the activity selected
  at that moment, and then calls \<open>onClose\<close> once; these two calls are all the calls,
  in this order. The validation is the resolver \<open>r\<close>, whatever its rules are.
\<close>

theorem valid_submit_calls_onSave_then_onClose:
  assumes "r (formValues s) = Inr data"
  shows "step r Submit s =
           (s\<lparr> formErrors := (\<lambda>f. None) \<rparr>,
            [OnSave (data\<lparr> activityCode := selectedActivity s \<rparr>), OnClose])"
  using assms by (simp add: handleSubmit_def onSubmit_def Let_def)

text \<open>
  The second scenario of the spec under the rules of the spec: the draft seeded from
  \<open>consulta_props\<close> has non-empty times, a non-empty activity and the professional 7.
\<close>

theorem valid_submit_calls_onSave_then_onClose_witness:
  "scheduleFormSchema (formValues (mount consulta_props)) =
     Inr (formValues (mount consulta_props)) \<and>
   snd (step scheduleFormSchema Submit (mount consulta_props)) =
     [OnSave \<lparr> professionalId = 7, weekday = ''segunda'', startTime = ''14:15'',
               endTime = ''15:45'', activityCode = ''consulta'', location = ''Room 2'',
               notes' = [] \<rparr>,
      OnClose]"
proof -
  have accepted:
    "scheduleFormSchema (formValues (mount consulta_props)) =
       Inr (formValues (mount consulta_props))"
    unfolding consulta_values
    by (simp add: scheduleFormSchema_def time_error_def is_digit_def)
  show ?thesis
    using accepted
      valid_submit_calls_onSave_then_onClose
        [of scheduleFormSchema "mount consulta_props" "formValues (mount consulta_props)"]
    by (simp add: consulta_values consulta_selected)
qed

text \<open>
  Claim C2. Under the rules of the spec, a draft whose \<open>startTime\<close>, \<open>endTime\<close> or
  \<open>activityCode\<close> is empty is not submitted: pressing Salvar calls neither \<open>onSave\<close>
  nor \<open>onClose\<close>, the draft and the selection stay as they were, the dialog is not
  closed (the props are untouched and \<open>onClose\<close> is not called), and the message of
  each missing field is shown under its input.
\<close>

theorem missing_required_field_blocks_submit:
  assumes "startTime (formValues s) = [] \<or> endTime (formValues s) = [] \<or>
           activityCode (formValues s) = []"
  shows "snd (step scheduleFormSchema Submit s) = [] \<and>
         formValues (fst (step scheduleFormSchema Submit s)) = formValues s \<and>
         selectedActivity (fst (step scheduleFormSchema Submit s)) = selectedActivity s \<and>
         lastDeps (fst (step scheduleFormSchema Submit s)) = lastDeps s \<and>
         (startTime (formValues s) = [] \<longrightarrow>
            error_text StartTime (fst (step scheduleFormSchema Submit s)) = Some ''required'') \<and>
         (endTime (formValues s) = [] \<longrightarrow>
            error_text EndTime (fst (step scheduleFormSchema Submit s)) = Some ''required'') \<and>
         (activityCode (formValues s) = [] \<longrightarrow>
            error_text ActivityCode (fst (step scheduleFormSchema Submit s)) =
              Some ''required'')"
proof -
  from assms have "scheduleFormSchema (formValues s) = Inl (schema_errors (formValues s))"
    by (auto simp: scheduleFormSchema_def time_error_def)
  then have "step scheduleFormSchema Submit s =
               (s\<lparr> formErrors := schema_errors (formValues s) \<rparr>, [])"
    by (simp add: handleSubmit_def)
  then show ?thesis
    by (simp add: error_text_def schema_errors_def time_error_def)
qed

text \<open>
  The dialog opened without a time slot, after the user has picked the empty activity:
  all three fields are missing.
\<close>

theorem missing_required_field_blocks_submit_witness:
  "startTime (formValues (handleActivityChange [] (mount empty_props))) = [] \<and>
   snd (step scheduleFormSchema Submit (handleActivityChange [] (mount empty_props))) = [] \<and>
   error_text StartTime
     (fst (step scheduleFormSchema Submit (handleActivityChange [] (mount empty_props)))) =
     Some ''required'' \<and>
   error_text EndTime
     (fst (step scheduleFormSchema Submit (handleActivityChange [] (mount empty_props)))) =
     Some ''required'' \<and>
   error_text ActivityCode
     (fst (step scheduleFormSchema Submit (handleActivityChange [] (mount empty_props)))) =
     Some ''required''"
proof -
  have v: "formValues (handleActivityChange [] (mount empty_props)) =
             \<lparr> professionalId = 0, weekday = ''segunda'', startTime = [], endTime = [],
               activityCode = [], location = [], notes' = [] \<rparr>"
    by (simp add: handleActivityChange_def setValue_activityCode_def setSelectedActivity_def
        empty_values)
  show ?thesis
    using missing_required_field_blocks_submit
            [of "handleActivityChange [] (mount empty_props)"]
    by (simp add: v)
qed

text \<open>
  Claim C6. The dialog opened with the time slot from 14:15 to 15:45 and no current
  activity, and submitted unchanged: when the validation accepts the seeded draft as it
  is, \<open>onSave\<close> is called with the activity \<open>disponivel\<close>, the two times of the slot,
  and an empty location and empty notes, and \<open>onClose\<close> follows.
\<close>

theorem unchanged_scenario_payload:
  assumes "isOpen p"
    and "timeSlot p = Some \<lparr> slot_startTime = ''14:15'', slot_endTime = ''15:45'' \<rparr>"
    and "currentActivity p = None"
    and "r (formValues (mount p)) = Inr (formValues (mount p))"
  shows "\<exists>d. snd (session r p [Submit]) = [OnSave d, OnClose] \<and>
             activityCode d = ''disponivel'' \<and> startTime d = ''14:15'' \<and>
             endTime d = ''15:45'' \<and> location d = [] \<and> notes' d = []"
  using assms
  by (simp add: session_def handleSubmit_def onSubmit_def Let_def mount_state defaultValues_def
      initialActivity_def or_string_def disponivel_def)

text \<open>The scenario with the professional 7, under the rules of the spec.\<close>

theorem unchanged_scenario_payload_witness:
  "isOpen scenario_props \<and>
   timeSlot scenario_props =
     Some \<lparr> slot_startTime = ''14:15'', slot_endTime = ''15:45'' \<rparr> \<and>
   currentActivity scenario_props = None \<and>
   scheduleFormSchema (formValues (mount scenario_props)) =
     Inr (formValues (mount scenario_props)) \<and>
   (\<exists>d. snd (session scheduleFormSchema scenario_props [Submit]) = [OnSave d, OnClose] \<and>
        activityCode d = ''disponivel'' \<and> startTime d = ''14:15'' \<and>
        endTime d = ''15:45'' \<and> location d = [] \<and> notes' d = [])"
proof -
  have a: "isOpen scenario_props"
    and b: "timeSlot scenario_props =
              Some \<lparr> slot_startTime = ''14:15'', slot_endTime = ''15:45'' \<rparr>"
    and c: "currentActivity scenario_props = None"
    by (simp_all add: scenario_props_def)
  have d: "scheduleFormSchema (formValues (mount scenario_props)) =
             Inr (formValues (mount scenario_props))"
    unfolding scenario_values
    by (simp add: scheduleFormSchema_def time_error_def is_digit_def)
  from unchanged_scenario_payload [of scenario_props scheduleFormSchema] a b c d
  show ?thesis by blast
qed

section \<open>Re-initialisation\<close>

text \<open>
  Claim C3. A render with the dialog open, after a render in which it was closed or
  in which the professional, the time slot, the current activity or the weekday was
  another one, leaves the component in the state of a dialog just mounted with the new
  props: the selection is the activity of the new \<open>currentActivity\<close>, the draft is the
  one built from the new props, and the errors are gone. Nothing of the state before
  the render is left, whatever the user had typed or picked.
\<close>

theorem prop_change_resets_whole_draft:
  assumes "lastDeps s = deps q" and "isOpen p"
    and "\<not> isOpen q \<or> professional q \<noteq> professional p \<or> timeSlot q \<noteq> timeSlot p \<or>
         currentActivity q \<noteq> currentActivity p \<or> weekday_prop q \<noteq> weekday_prop p"
  shows "rerender p fresh s = mount p \<and>
         selectedActivity (rerender p fresh s) = initialActivity (currentActivity p) \<and>
         formValues (rerender p fresh s) = defaultValues p \<and>
         formErrors (rerender p fresh s) = (\<lambda>f. None)"
proof -
  from assms have "lastDeps s \<noteq> deps p"
    by (auto simp: deps_def)
  then have "rerender p fresh s = effect p (s\<lparr> lastDeps := deps p \<rparr>)"
    by (simp add: rerender_def)
  with \<open>isOpen p\<close> have "rerender p fresh s = mount p"
    by (simp add: effect_open mount_state)
  then show ?thesis
    by (simp add: mount_state)
qed

text \<open>
  The user has picked \<open>aula\<close> and typed a note in the dialog of the first scenario;
  the parent then passes the current activity \<open>consulta\<close>.
\<close>

theorem prop_change_resets_whole_draft_witness:
  "lastDeps (fst (session scheduleFormSchema scenario_props
      [SelectActivity ''aula'', ChangeNotes ''trazer exames''])) = deps scenario_props \<and>
   isOpen consulta_props \<and>
   currentActivity scenario_props \<noteq> currentActivity consulta_props \<and>
   selectedActivity (fst (session scheduleFormSchema scenario_props
      [SelectActivity ''aula'', ChangeNotes ''trazer exames''])) = ''aula'' \<and>
   rerender consulta_props False (fst (session scheduleFormSchema scenario_props
      [SelectActivity ''aula'', ChangeNotes ''trazer exames''])) = mount consulta_props \<and>
   selectedActivity (rerender consulta_props False (fst (session scheduleFormSchema
      scenario_props [SelectActivity ''aula'', ChangeNotes ''trazer exames'']))) = ''consulta''"
proof -
  have a: "lastDeps (fst (session scheduleFormSchema scenario_props
      [SelectActivity ''aula'', ChangeNotes ''trazer exames''])) = deps scenario_props"
    by (simp add: session_def handleActivityChange_def setValue_activityCode_def
        setSelectedActivity_def mount_state)
  have b: "isOpen consulta_props"
    by (simp add: consulta_props_def scenario_props_def)
  have c: "currentActivity scenario_props \<noteq> currentActivity consulta_props"
    by (simp add: consulta_props_def scenario_props_def)
  have d: "selectedActivity (fst (session scheduleFormSchema scenario_props
      [SelectActivity ''aula'', ChangeNotes ''trazer exames''])) = ''aula''"
    by (simp add: session_def handleActivityChange_def setValue_activityCode_def
        setSelectedActivity_def)
  have e: "initialActivity (currentActivity consulta_props) = ''consulta''"
    by (simp add: consulta_props_def initialActivity_def or_string_def)
  from prop_change_resets_whole_draft
         [of "fst (session scheduleFormSchema scenario_props
                [SelectActivity ''aula'', ChangeNotes ''trazer exames''])"
             scenario_props consulta_props False] a b c
  have "rerender consulta_props False (fst (session scheduleFormSchema scenario_props
            [SelectActivity ''aula'', ChangeNotes ''trazer exames''])) = mount consulta_props \<and>
        selectedActivity (rerender consulta_props False (fst (session scheduleFormSchema
            scenario_props [SelectActivity ''aula'', ChangeNotes ''trazer exames'']))) =
          initialActivity (currentActivity consulta_props)"
    by blast
  with a b c d e show ?thesis
    by (simp add: consulta_selected)
qed

text \<open>
  Claim C10. Without a professional the draft's \<open>professionalId\<close> is the number 0: in
  the default values, in the mounted component and after the reset of the effect. It
  stays 0 as long as no render brings a professional, so the draft that Salvar
  validates has the id 0, which is not positive, and a validation that lets this draft
  through as it is hands \<open>onSave\<close> a payload with the id 0.
\<close>

theorem no_professional_gives_id_zero:
  assumes "professional p = None" and "list_all no_professional es"
  shows "professionalId (defaultValues p) = 0 \<and>
         professionalId (formValues (mount p)) = 0 \<and>
         (isOpen p \<longrightarrow> professionalId (formValues (effect p s)) = 0) \<and>
         professionalId (formValues (fst (session r p es))) = 0 \<and>
         (r (formValues (fst (session r p es))) = Inr (formValues (fst (session r p es))) \<longrightarrow>
            (\<exists>d. snd (step r Submit (fst (session r p es))) = [OnSave d, OnClose] \<and>
                 professionalId d = 0 \<and> \<not> 0 < professionalId d))"
proof -
  from assms(1) have d: "professionalId (defaultValues p) = 0"
    by (simp add: defaultValues_def or_number_def)
  then have m: "professionalId (formValues (mount p)) = 0"
    by (simp add: mount_state)
  from assms(1) have e: "isOpen p \<longrightarrow> professionalId (formValues (effect p s)) = 0"
    by (simp add: effect_def reset_def Let_def or_number_def)
  from assms(2) m have x: "professionalId (formValues (fst (session r p es))) = 0"
    by (simp add: session_def run_no_professional)
  have "r (formValues (fst (session r p es))) = Inr (formValues (fst (session r p es))) \<longrightarrow>
          (\<exists>d. snd (step r Submit (fst (session r p es))) = [OnSave d, OnClose] \<and>
               professionalId d = 0 \<and> \<not> 0 < professionalId d)"
    using x by (simp add: handleSubmit_def onSubmit_def Let_def)
  with d m e x show ?thesis
    by blast
qed

text \<open>
  The dialog without a professional; the user types two times, the parent renders the
  same props again, and a validation that accepts everything is used.
\<close>

theorem no_professional_gives_id_zero_witness:
  "professional empty_props = None \<and>
   list_all no_professional
     [ChangeStartTime ''08:00'', ChangeEndTime ''09:00'', Rerender empty_props True] \<and>
   professionalId (defaultValues empty_props) = 0 \<and>
   professionalId (formValues (fst (session (\<lambda>v. Inr v) empty_props
     [ChangeStartTime ''08:00'', ChangeEndTime ''09:00'', Rerender empty_props True]))) = 0 \<and>
   (\<exists>d. snd (step (\<lambda>v. Inr v) Submit (fst (session (\<lambda>v. Inr v) empty_props
          [ChangeStartTime ''08:00'', ChangeEndTime ''09:00'', Rerender empty_props True]))) =
          [OnSave d, OnClose] \<and>
        professionalId d = 0)"
proof -
  have a: "professional empty_props = None"
    by (simp add: empty_props_def)
  have b: "list_all no_professional
             [ChangeStartTime ''08:00'', ChangeEndTime ''09:00'', Rerender empty_props True]"
    by (simp add: empty_props_def)
  from no_professional_gives_id_zero [OF a b, of "mount empty_props" "\<lambda>v. Inr v"] a b
  show ?thesis
    by auto
qed

section \<open>The selected activity\<close>

text \<open>
  Claim C4. \<open>handleActivityChange\<close> writes the picked value into the state of the
  select and into the form's \<open>activityCode\<close> in one step, and in every state the
  component reaches from its mounting, whatever was picked, typed or rendered on the
  way, the selection and the form's \<open>activityCode\<close> are the same string.
\<close>

theorem selection_and_activityCode_agree:
  "selectedActivity (handleActivityChange v s) = v \<and>
   activityCode (formValues (handleActivityChange v s)) = v \<and>
   selectedActivity (fst (session r p es)) = activityCode (formValues (fst (session r p es)))"
proof -
  have "selectedActivity (mount p) = activityCode (formValues (mount p))"
    by (simp add: mount_state defaultValues_def initialActivity_def)
  then show ?thesis
    by (simp add: session_def run_agree handleActivityChange_def setValue_activityCode_def
        setSelectedActivity_def)
qed

text \<open>Two selections in a row, \<open>aula\<close> and then \<open>consulta\<close>.\<close>

theorem selection_and_activityCode_agree_witness:
  "selectedActivity (fst (session scheduleFormSchema scenario_props
      [SelectActivity ''aula'', SelectActivity ''consulta''])) = ''consulta'' \<and>
   activityCode (formValues (fst (session scheduleFormSchema scenario_props
      [SelectActivity ''aula'', SelectActivity ''consulta'']))) = ''consulta''"
proof -
  have "selectedActivity (fst (session scheduleFormSchema scenario_props
          [SelectActivity ''aula'', SelectActivity ''consulta''])) = ''consulta''"
    by (simp add: session_def handleActivityChange_def setValue_activityCode_def
        setSelectedActivity_def)
  with selection_and_activityCode_agree
         [of "''consulta''" "mount scenario_props" scheduleFormSchema scenario_props
             "[SelectActivity ''aula'', SelectActivity ''consulta'']"]
  show ?thesis
    by simp
qed

text \<open>
  Claim C5, as the spec states it: when Salvar is pressed, the \<open>activityCode\<close> of the
  payload is the sentinel \<open>disponivel\<close> or the code of an option that the lookup holds
  at that moment. It fails. The dialog of the second scenario is opened for a slot
  whose current activity is \<open>consulta\<close>, and Salvar is pressed with nothing changed
  while the lookup holds no option (it is still pending, or it has fetched the empty
  array). The rules of the spec accept the draft, \<open>onSave\<close> receives the code
  \<open>consulta\<close>, and the select of that moment has the item of \<open>disponivel\<close> alone.
\<close>

theorem payload_activity_not_in_options:
  "snd (session scheduleFormSchema consulta_props [Submit]) =
     [OnSave \<lparr> professionalId = 7, weekday = ''segunda'', startTime = ''14:15'',
               endTime = ''15:45'', activityCode = ''consulta'', location = ''Room 2'',
               notes' = [] \<rparr>,
      OnClose] \<and>
   SelectContent None = Inr [available_item] \<and>
   SelectContent (Some (JArr [])) = Inr [available_item] \<and>
   \<not> in_live_options None ''consulta'' \<and>
   \<not> in_live_options (Some (JArr [])) ''consulta''"
proof -
  have "snd (session scheduleFormSchema consulta_props [Submit]) =
          [OnSave \<lparr> professionalId = 7, weekday = ''segunda'', startTime = ''14:15'',
                    endTime = ''15:45'', activityCode = ''consulta'', location = ''Room 2'',
                    notes' = [] \<rparr>,
           OnClose]"
    unfolding session_def
    by (simp add: handleSubmit_def onSubmit_def consulta_values consulta_selected
          scheduleFormSchema_def time_error_def is_digit_def)
  moreover have "SelectContent None = Inr [available_item]"
    and "SelectContent (Some (JArr [])) = Inr [available_item]"
    by (simp_all add: SelectContent_def isArray_def)
  ultimately show ?thesis
    by (simp add: in_live_options_def available_item_def)
qed

text \<open>
  Claim C5, amended. When Salvar is pressed, the \<open>activityCode\<close> of the payload is
  the activity selected at that moment, and the selected activity is the value of the
  last write before it: the activity seeded from \<open>currentActivity\<close> at the first render
  or by a later reset of the effect (its \<open>atividade\<close>, or \<open>disponivel\<close> when it is
  absent or empty), or the value that the select passed to \<open>handleActivityChange\<close>,
  whichever came last. It is not compared with the fetched options.
\<close>

theorem payload_activity_is_current_selection:
  assumes "d \<in> set (saved (snd (step r Submit (fst (session r p es)))))"
  shows "activityCode d = selectedActivity (fst (session r p es)) \<and>
         selectedActivity (fst (session r p es)) =
           last (initialActivity (currentActivity p) # selection_writes (deps p) es)"
  using assms
  by (simp add: step_saved session_def run_selection mount_state del: step.simps)

text \<open>
  The second scenario, with \<open>aula\<close> picked and then a render of the same props, which
  runs no effect, before Salvar.
\<close>

theorem payload_activity_is_current_selection_witness:
  "(formValues (mount consulta_props))\<lparr> activityCode := ''aula'' \<rparr>
     \<in> set (saved (snd (step scheduleFormSchema Submit
                 (fst (session scheduleFormSchema consulta_props
                    [SelectActivity ''aula'', Rerender consulta_props False]))))) \<and>
   selectedActivity (fst (session scheduleFormSchema consulta_props
      [SelectActivity ''aula'', Rerender consulta_props False])) = ''aula'' \<and>
   last (initialActivity (currentActivity consulta_props) #
         selection_writes (deps consulta_props)
           [SelectActivity ''aula'', Rerender consulta_props False]) = ''aula''"
proof -
  have s: "fst (session scheduleFormSchema consulta_props
             [SelectActivity ''aula'', Rerender consulta_props False]) =
           handleActivityChange ''aula'' (mount consulta_props)"
    by (simp add: session_def rerender_def handleActivityChange_def
          setValue_activityCode_def setSelectedActivity_def mount_state)
  have a: "(formValues (mount consulta_props))\<lparr> activityCode := ''aula'' \<rparr>
             \<in> set (saved (snd (step scheduleFormSchema Submit
                         (fst (session scheduleFormSchema consulta_props
                            [SelectActivity ''aula'', Rerender consulta_props False])))))"
    unfolding s
    by (simp add: handleSubmit_def onSubmit_def handleActivityChange_def
          setValue_activityCode_def setSelectedActivity_def consulta_values
          scheduleFormSchema_def time_error_def is_digit_def)
  have b: "selectedActivity (fst (session scheduleFormSchema consulta_props
             [SelectActivity ''aula'', Rerender consulta_props False])) = ''aula''"
    unfolding s
    by (simp add: handleActivityChange_def setValue_activityCode_def setSelectedActivity_def)
  from payload_activity_is_current_selection [OF a] a b show ?thesis
    by simp
qed

section \<open>The options of the select\<close>

text \<open>
  Claim C7. When the lookup has fetched the options \<open>opts\<close>, the items of the select
  are the item of \<open>disponivel\<close> first, and then one item for each fetched option, in
  the order of the fetched list, with the option's code as its value and the option's
  name as its label; there is no other item.
\<close>

theorem options_are_available_then_fetched:
  "SelectContent (Some (JArr (map option_json opts))) =
     Inr (available_item # map option_item opts)"
  by (simp add: SelectContent_def isArray_def map_items_options)

text \<open>Two fetched options, \<open>aula\<close> and \<open>consulta\<close>.\<close>

theorem options_are_available_then_fetched_witness:
  "SelectContent (Some (JArr (map option_json
      [\<lparr> opt_id = 1, opt_code = ''aula'', opt_name = ''Aula'' \<rparr>,
       \<lparr> opt_id = 2, opt_code = ''consulta'', opt_name = ''Consulta'' \<rparr>]))) =
   Inr [available_item,
        \<lparr> item_key = Some (JNum 1), item_value = Some (JStr ''aula''),
          item_children = Some (JStr ''Aula'') \<rparr>,
        \<lparr> item_key = Some (JNum 2), item_value = Some (JStr ''consulta''),
          item_children = Some (JStr ''Consulta'') \<rparr>]"
  using options_are_available_then_fetched
          [of "[\<lparr> opt_id = 1, opt_code = ''aula'', opt_name = ''Aula'' \<rparr>,
                \<lparr> opt_id = 2, opt_code = ''consulta'', opt_name = ''Consulta'' \<rparr>]"]
  by (simp add: option_item_def)

text \<open>
  Claim C8, as the spec states it: malformed data of the lookup leaves the select
  with the item of \<open>disponivel\<close> alone, and the dialog usable. It fails for an array
  with a malformed element. With \<open>[null]\<close> the callback of \<open>map\<close> reads \<open>null.id\<close>
  and the rendering ends in a \<open>TypeError\<close>; with an object that has none of the
  properties \<open>id\<close>, \<open>code\<close>, \<open>name\<close> the select gets a second item, whose value and
  label are \<open>undefined\<close>.
\<close>

theorem malformed_array_breaks_options:
  "SelectContent (Some (JArr [JNull])) = Inl TypeError \<and>
   SelectContent (Some (JArr [JNull])) \<noteq> Inr [available_item] \<and>
   SelectContent (Some (JArr [JObj [(''nome'', JStr ''Aula'')]])) =
     Inr [available_item, \<lparr> item_key = None, item_value = None, item_children = None \<rparr>]"
  by (simp add: SelectContent_def isArray_def activity_item_def)

text \<open>
  Claim C8, amended. When the lookup has no data (it is pending, or it failed with
  nothing cached), or its data is an empty array or is not an array at all, the
  rendering of the select succeeds and its only item is the item of \<open>disponivel\<close>.
  The elements of an array are not checked.
\<close>

theorem no_array_gives_only_available:
  assumes "data = None \<or> data = Some (JArr []) \<or> (\<exists>v. data = Some v \<and> \<not> isArray v)"
  shows "SelectContent data = Inr [available_item]"
  using assms by (auto simp: SelectContent_def isArray_def)

text \<open>The body of an error response in place of the array, and no data at all.\<close>

theorem no_array_gives_only_available_witness:
  "\<not> isArray (JObj [(''message'', JStr ''Internal Server Error'')]) \<and>
   SelectContent (Some (JObj [(''message'', JStr ''Internal Server Error'')])) =
     Inr [available_item] \<and>
   SelectContent None = Inr [available_item]"
  using no_array_gives_only_available
          [of "Some (JObj [(''message'', JStr ''Internal Server Error'')])"]
        no_array_gives_only_available [of None]
  by (simp add: isArray_def)

section \<open>The flag \<open>isNew\<close>\<close>

text \<open>
  Claim C9. Two lives of the dialog whose props, in the first render and in every
  later one, differ at most in \<open>isNew\<close>, and in which the user does the same things,
  reach the same state and make the same calls of \<open>onSave\<close> and \<open>onClose\<close>, with the
  same payloads, in the same order. What \<open>isNew\<close> decides is the title.
\<close>

theorem isNew_changes_title_only:
  assumes "forget_isNew p' = forget_isNew p"
    and "map forget_isNew_event es' = map forget_isNew_event es"
  shows "session r p' es' = session r p es \<and>
         DialogTitle p =
           (if isNew p = Some True then ''Nova Atividade''
            else ''Editar Hor'' @ [CHR 0xC3, CHR 0xA1] @ ''rio'')"
proof -
  have "session r p' es' = session r (forget_isNew p') (map forget_isNew_event es')"
    by (simp only: session_forget)
  also have "\<dots> = session r p es"
    by (simp only: assms session_forget)
  finally show ?thesis
    by (simp add: DialogTitle_def split: option.splits)
qed

text \<open>
  The first scenario, then the current activity \<open>consulta\<close>, a new end time and
  Salvar: once with \<open>isNew\<close> true in every render, once without it.
\<close>

theorem isNew_changes_title_only_witness:
  "forget_isNew (scenario_props\<lparr> isNew := Some True \<rparr>) = forget_isNew scenario_props \<and>
   map forget_isNew_event
     [Rerender (consulta_props\<lparr> isNew := Some True \<rparr>) False, ChangeEndTime ''16:00'', Submit] =
   map forget_isNew_event [Rerender consulta_props False, ChangeEndTime ''16:00'', Submit] \<and>
   session scheduleFormSchema (scenario_props\<lparr> isNew := Some True \<rparr>)
     [Rerender (consulta_props\<lparr> isNew := Some True \<rparr>) False, ChangeEndTime ''16:00'', Submit] =
   session scheduleFormSchema scenario_props
     [Rerender consulta_props False, ChangeEndTime ''16:00'', Submit] \<and>
   DialogTitle (scenario_props\<lparr> isNew := Some True \<rparr>) = ''Nova Atividade'' \<and>
   DialogTitle scenario_props \<noteq> ''Nova Atividade''"
proof -
  have a: "forget_isNew (scenario_props\<lparr> isNew := Some True \<rparr>) = forget_isNew scenario_props"
    by (simp add: forget_isNew_def)
  have b: "map forget_isNew_event
             [Rerender (consulta_props\<lparr> isNew := Some True \<rparr>) False, ChangeEndTime ''16:00'',
              Submit] =
           map forget_isNew_event [Rerender consulta_props False, ChangeEndTime ''16:00'', Submit]"
    by (simp add: forget_isNew_def)
  have c: "DialogTitle (scenario_props\<lparr> isNew := Some True \<rparr>) = ''Nova Atividade''"
    by (simp add: DialogTitle_def)
  have d: "DialogTitle scenario_props \<noteq> ''Nova Atividade''"
    by (simp add: DialogTitle_def scenario_props_def)
  from isNew_changes_title_only
         [of "scenario_props\<lparr> isNew := Some True \<rparr>" scenario_props
             "[Rerender (consulta_props\<lparr> isNew := Some True \<rparr>) False, ChangeEndTime ''16:00'',
               Submit]"
             "[Rerender consulta_props False, ChangeEndTime ''16:00'', Submit]"
             scheduleFormSchema] a b c d
  show ?thesis
    by blast
qed

end
